theory Spec2Isabelle
  imports Complex_Main "HOL-Library.Sublist" "HOL-Library.Word"
begin

section \<open>Palette extraction from an image (generador\_paleta.py)\<close>

text \<open>
  The add-on has one function with algorithmic content, \<open>extraer_paleta_de_imagen\<close>, and a
  host-side cleanup, \<open>limpiar_materiales_paleta\<close>. Both are embedded here as they are
  written. The libraries they call (the file system, PIL, scikit-learn) are not part of the
  repository: they are fields of a record of collaborators, each returning either the
  exception it raises or its result.
\<close>

subsection \<open>Float64 arithmetic\<close>

text \<open>
  Python's \<open>float\<close> and numpy's \<open>float64\<close> are IEEE 754 doubles. A finite double is
  modelled as the real number it denotes, and an arithmetic operation as the exact operation
  followed by rounding to the nearest double, ties to the even significand. \<open>cuanto x\<close>
  is the spacing of the doubles around \<open>x\<close>: 52 binary places below the leading bit, and
  never finer than the spacing of the subnormal numbers. Overflow, infinities and NaN are
  not modelled: the values of the program are colour components and image sizes.
\<close>

definition rne :: "real \<Rightarrow> int" where
  "rne y = (let n = \<lfloor>y\<rfloor>; r = y - of_int n
            in if r < 1 / 2 then n else if 1 / 2 < r then n + 1
               else if even n then n else n + 1)"

definition cuanto :: "real \<Rightarrow> real" where
  "cuanto x = 2 powr of_int (max \<lfloor>log 2 \<bar>x\<bar>\<rfloor> (- 1022) - 52)"

definition round64 :: "real \<Rightarrow> real" where
  "round64 x = (if x = 0 then 0 else sgn x * of_int (rne (\<bar>x\<bar> / cuanto x)) * cuanto x)"

definition fadd :: "real \<Rightarrow> real \<Rightarrow> real" where
  "fadd a b = round64 (a + b)"

definition fsub :: "real \<Rightarrow> real \<Rightarrow> real" where
  "fsub a b = round64 (a - b)"

definition fmul :: "real \<Rightarrow> real \<Rightarrow> real" where
  "fmul a b = round64 (a * b)"

definition fdiv :: "real \<Rightarrow> real \<Rightarrow> real" where
  "fdiv a b = round64 (a / b)"

definition fsqrt :: "real \<Rightarrow> real" where
  "fsqrt a = round64 (sqrt a)"

subsection \<open>Exceptions and module constants\<close>

text \<open>
  The two handlers of the function distinguish \<open>FileNotFoundError\<close> from every other
  subclass of \<open>Exception\<close>; the string is \<open>str(e)\<close>. A decimal literal of the
  source denotes the double nearest to it.
\<close>

datatype exn = FileNotFoundError string | Exception string

definition NUM_COLORES_PALETA :: int where
  "NUM_COLORES_PALETA = 8"

definition REESCALAR_IMAGEN_PROCESAMIENTO :: real where
  "REESCALAR_IMAGEN_PROCESAMIENTO = round64 (3 / 10)"

definition PREFIJO_NOMBRE_DEFAULT :: string where
  "PREFIJO_NOMBRE_DEFAULT = ''Paleta_''"

definition TOLERANCIA_COLOR_UNICOS :: real where
  "TOLERANCIA_COLOR_UNICOS = round64 (5 / 100)"

subsection \<open>Images, colours and the collaborators\<close>

type_synonym pixel = "8 word \<times> 8 word \<times> 8 word"

type_synonym color = "real \<times> real \<times> real"

text \<open>An image in mode RGB: \<open>img_size\<close> is (width, height), the data are row-major.\<close>

record rgb_image =
  img_size :: "nat \<times> nat"
  img_data :: "pixel list"

datatype resample = NEAREST | BOX | BILINEAR | HAMMING | BICUBIC | LANCZOS

text \<open>
  \<open>open_file\<close> is the file system (the bytes behind a path, or the error of opening it),
  \<open>decode\<close> is what \<open>Image.open\<close> does with the bytes, \<open>convert_RGB\<close> is
  \<open>img.convert('RGB')\<close>, \<open>resize\<close> is \<open>img.resize(size, filter)\<close>, and
  \<open>kmeans_fit rng n_clusters random_state n_init X\<close> is
  \<open>KMeans(n_clusters, random_state, n_init).fit(X).cluster_centers_\<close>, where \<open>rng\<close> is
  the state of the process-wide random generator that an unseeded run would draw from.
\<close>

record 'i collaborators =
  open_file :: "string \<Rightarrow> exn + 8 word list"
  decode :: "8 word list \<Rightarrow> exn + 'i"
  convert_RGB :: "'i \<Rightarrow> exn + rgb_image"
  resize :: "rgb_image \<Rightarrow> int \<times> int \<Rightarrow> resample \<Rightarrow> exn + rgb_image"
  kmeans_fit :: "nat \<Rightarrow> int \<Rightarrow> int option \<Rightarrow> int \<Rightarrow> pixel list \<Rightarrow> exn + color list"

definition Image_open :: "'i collaborators \<Rightarrow> string \<Rightarrow> exn + 'i" where
  "Image_open w imagen_path =
     (case open_file w imagen_path of Inl e \<Rightarrow> Inl e | Inr b \<Rightarrow> decode w b)"

subsection \<open>Downscaling (lines 38 to 47)\<close>

text \<open>
  Python's \<open>int\<close> on a float truncates towards zero. In \<open>ancho_original *
  reescalar_factor\<close> the integer becomes a float first, exactly for any size an image can
  have, and the product is a float product.
\<close>

definition py_int :: "real \<Rightarrow> int" where
  "py_int x = (if 0 \<le> x then \<lfloor>x\<rfloor> else \<lceil>x\<rceil>)"

definition nuevo_tamano :: "nat \<times> nat \<Rightarrow> real \<Rightarrow> int \<times> int" where
  "nuevo_tamano sz reescalar_factor =
     (case sz of (ancho_original, alto_original) \<Rightarrow>
        (py_int (fmul (real ancho_original) reescalar_factor),
         py_int (fmul (real alto_original) reescalar_factor)))"

definition muestrear :: "'i collaborators \<Rightarrow> rgb_image \<Rightarrow> real \<Rightarrow> exn + pixel list" where
  "muestrear w img reescalar_factor =
     (if reescalar_factor > 0 \<and> reescalar_factor < 1 then
        (case resize w img (nuevo_tamano (img_size img) reescalar_factor) LANCZOS of
           Inl e \<Rightarrow> Inl e
         | Inr img_redimensionada \<Rightarrow> Inr (img_data img_redimensionada))
      else Inr (img_data img))"

subsection \<open>Filtering similar colours (lines 55 to 66)\<close>

text \<open>
  \<open>np.linalg.norm(new_color - existing_color)\<close> on rows of three float64 components: the
  difference is taken component by component, and the norm of a row is the square root of
  the dot product of the row with itself, summed from the first component on. Each
  operation rounds.
\<close>

fun resta :: "color \<Rightarrow> color \<Rightarrow> color" where
  "resta (r1, g1, b1) (r2, g2, b2) = (fsub r1 r2, fsub g1 g2, fsub b1 b2)"

fun linalg_norm :: "color \<Rightarrow> real" where
  "linalg_norm (r, g, b) = fsqrt (fadd (fadd (fmul r r) (fmul g g)) (fmul b b))"

definition distance :: "color \<Rightarrow> color \<Rightarrow> real" where
  "distance new_color existing_color = linalg_norm (resta new_color existing_color)"

text \<open>The inner loop: \<open>is_unique\<close> starts True and the first close colour ends the scan.\<close>

fun is_unique :: "real \<Rightarrow> color \<Rightarrow> color list \<Rightarrow> bool" where
  "is_unique tolerancia_unicos new_color [] = True"
| "is_unique tolerancia_unicos new_color (existing_color # rest) =
     (if distance new_color existing_color < tolerancia_unicos then False
      else is_unique tolerancia_unicos new_color rest)"

text \<open>The outer loop, with the list \<open>colores_finales_unicos\<close> as its accumulator.\<close>

fun filtrar_loop :: "real \<Rightarrow> color list \<Rightarrow> color list \<Rightarrow> color list" where
  "filtrar_loop tolerancia_unicos [] colores_finales_unicos = colores_finales_unicos"
| "filtrar_loop tolerancia_unicos (new_color # rest) colores_finales_unicos =
     filtrar_loop tolerancia_unicos rest
       (if is_unique tolerancia_unicos new_color colores_finales_unicos
        then colores_finales_unicos @ [new_color]
        else colores_finales_unicos)"

definition colores_finales_unicos :: "real \<Rightarrow> color list \<Rightarrow> color list" where
  "colores_finales_unicos tolerancia_unicos colores_rgb_normalizados =
     filtrar_loop tolerancia_unicos colores_rgb_normalizados []"

text \<open>\<open>kmeans.cluster_centers_ / 255.0\<close>, a float division of every component.\<close>

fun normalizar :: "color \<Rightarrow> color" where
  "normalizar (r, g, b) = (fdiv r 255, fdiv g 255, fdiv b 255)"

subsection \<open>The function extraer\_paleta\_de\_imagen\<close>

text \<open>The body of the \<open>try\<close>: the first exception of any step ends it.\<close>

definition cuerpo ::
  "'i collaborators \<Rightarrow> nat \<Rightarrow> string \<Rightarrow> int \<Rightarrow> real \<Rightarrow> real \<Rightarrow> exn + color list" where
  "cuerpo w rng imagen_path num_colores reescalar_factor tolerancia_unicos =
     (case Image_open w imagen_path of Inl e \<Rightarrow> Inl e | Inr img0 \<Rightarrow>
      case convert_RGB w img0 of Inl e \<Rightarrow> Inl e | Inr img \<Rightarrow>
      case muestrear w img reescalar_factor of Inl e \<Rightarrow> Inl e | Inr pixels \<Rightarrow>
      case kmeans_fit w rng num_colores (Some 0) 10 pixels of Inl e \<Rightarrow> Inl e
      | Inr cluster_centers \<Rightarrow>
          Inr (colores_finales_unicos tolerancia_unicos (map normalizar cluster_centers)))"

definition msg_no_encontrada :: "string \<Rightarrow> string" where
  "msg_no_encontrada imagen_path =
     ''Error: La imagen no se encontr'' @ [CHR 0xC3, CHR 0xB3] @ '' en la ruta: '' @ imagen_path"

definition msg_al_procesar :: "string \<Rightarrow> string" where
  "msg_al_procesar e = ''Error al procesar la imagen: '' @ e"

text \<open>
  The result is the pair of the lines printed and the value returned; \<open>None\<close> is
  Python's \<open>None\<close>.
\<close>

definition extraer_paleta_de_imagen ::
  "'i collaborators \<Rightarrow> nat \<Rightarrow> string \<Rightarrow> int \<Rightarrow> real \<Rightarrow> real \<Rightarrow> string list \<times> color list option" where
  "extraer_paleta_de_imagen w rng imagen_path num_colores reescalar_factor tolerancia_unicos =
     (case cuerpo w rng imagen_path num_colores reescalar_factor tolerancia_unicos of
        Inr colores \<Rightarrow> ([], Some colores)
      | Inl (FileNotFoundError _) \<Rightarrow> ([msg_no_encontrada imagen_path], None)
      | Inl (Exception e) \<Rightarrow> ([msg_al_procesar e], None))"

subsection \<open>The host-side cleanup limpiar\_materiales\_paleta\<close>

text \<open>
  Of a material the cleanup reads the name and the user count, of an object the name.
  \<open>bpy.data.materials\<close> and \<open>bpy.data.objects\<close> are the two lists.
\<close>

record material =
  mat_name :: string
  mat_users :: nat

record bpy_data =
  materials :: "material list"
  objects :: "string list"

definition startswith :: "string \<Rightarrow> string \<Rightarrow> bool" where
  "startswith s p = prefix p s"

definition material_matches :: "string \<Rightarrow> material \<Rightarrow> bool" where
  "material_matches current_prefix mat \<longleftrightarrow>
     startswith (mat_name mat) PREFIJO_NOMBRE_DEFAULT \<or> startswith (mat_name mat) current_prefix"

definition object_matches :: "string \<Rightarrow> string \<Rightarrow> bool" where
  "object_matches current_prefix name \<longleftrightarrow>
     startswith name PREFIJO_NOMBRE_DEFAULT \<or> startswith name current_prefix
     \<or> sublist ''Color_Referencia_'' name"

definition limpiar_materiales_paleta :: "string \<Rightarrow> bpy_data \<Rightarrow> bpy_data" where
  "limpiar_materiales_paleta current_prefix d =
     (let materials_to_remove = filter (material_matches current_prefix) (materials d);
          ms = fold (\<lambda>mat ms. if \<not> (mat_users mat \<noteq> 0) then remove1 mat ms else ms)
                 materials_to_remove (materials d);
          objects_to_remove = filter (object_matches current_prefix) (objects d);
          os = fold remove1 objects_to_remove (objects d)
      in \<lparr> materials = ms, objects = os \<rparr>)"

subsection \<open>The deduplicator in the words of the specification\<close>

text \<open>
  A second definition, written from the specification and not from the source: a candidate
  is accepted when the accepted list is empty or its distance to every accepted colour is
  at least the tolerance; accepted candidates are appended, the others dropped. The
  distance is a parameter \<open>d\<close>, so that the pass can be taken with the Euclidean distance
  of the specification, \<open>euclid\<close>, or with the distance the code computes.
\<close>

fun euclid :: "color \<Rightarrow> color \<Rightarrow> real" where
  "euclid (r1, g1, b1) (r2, g2, b2) =
     sqrt ((r1 - r2) * (r1 - r2) + (g1 - g2) * (g1 - g2) + (b1 - b2) * (b1 - b2))"

definition accepts ::
  "(color \<Rightarrow> color \<Rightarrow> real) \<Rightarrow> real \<Rightarrow> color list \<Rightarrow> color \<Rightarrow> bool" where
  "accepts d tolerance accepted candidate \<longleftrightarrow>
     accepted = [] \<or> (\<forall>a \<in> set accepted. d candidate a \<ge> tolerance)"

definition deduplicate_spec ::
  "(color \<Rightarrow> color \<Rightarrow> real) \<Rightarrow> real \<Rightarrow> color list \<Rightarrow> color list" where
  "deduplicate_spec d tolerance centroids =
     foldl (\<lambda>accepted candidate.
              if accepts d tolerance accepted candidate then accepted @ [candidate]
              else accepted)
       [] centroids"

text \<open>Every later colour of a list is at least \<open>t\<close> away from every earlier one.\<close>

fun separados :: "real \<Rightarrow> color list \<Rightarrow> bool" where
  "separados t [] = True"
| "separados t (x # xs) = ((\<forall>y \<in> set xs. t \<le> distance y x) \<and> separados t xs)"

subsection \<open>What the libraries are assumed to do\<close>

text \<open>
  Two properties of scikit-learn's KMeans that the code relies on and cannot establish
  itself: \<open>cluster_centers_\<close> has \<open>n_clusters\<close> rows, and a run with an integer
  \<open>random_state\<close> does not draw from the process-wide generator.
\<close>

definition kmeans_devuelve_k :: "'i collaborators \<Rightarrow> bool" where
  "kmeans_devuelve_k w \<longleftrightarrow>
     (\<forall>rng n_clusters random_state n_init X centers.
        kmeans_fit w rng n_clusters random_state n_init X = Inr centers
          \<longrightarrow> int (length centers) = n_clusters)"

definition kmeans_sembrado :: "'i collaborators \<Rightarrow> bool" where
  "kmeans_sembrado w \<longleftrightarrow>
     (\<forall>rng rng' n_clusters s n_init X.
        kmeans_fit w rng n_clusters (Some s) n_init X
          = kmeans_fit w rng' n_clusters (Some s) n_init X)"

subsection \<open>A concrete set of collaborators\<close>

text \<open>
  A small world to run the function in: one file holding a 5 by 2 image of two colours,
  one file that does not decode, no other file; a resize that returns an image of the size
  asked for and refuses an empty one; a clusterer that refuses more clusters than samples
  and otherwise returns \<open>n_clusters\<close> centres, which depend on the process-wide
  generator only when no seed is given.
\<close>

definition imagen_demo :: rgb_image where
  "imagen_demo =
     \<lparr> img_size = (5, 2), img_data = replicate 5 (255, 0, 0) @ replicate 5 (0, 0, 255) \<rparr>"

definition archivos_demo :: "string \<Rightarrow> exn + 8 word list" where
  "archivos_demo path =
     (if path = ''dos_colores.png'' then Inr [137, 80, 78, 71]
      else if path = ''corrupto.png'' then Inr []
      else Inl (FileNotFoundError (''No such file or directory: '' @ path)))"

definition decode_demo :: "8 word list \<Rightarrow> exn + rgb_image" where
  "decode_demo b =
     (if b = [] then Inl (Exception ''cannot identify image file'') else Inr imagen_demo)"

definition resize_demo :: "rgb_image \<Rightarrow> int \<times> int \<Rightarrow> resample \<Rightarrow> exn + rgb_image" where
  "resize_demo img sz filt =
     (case sz of (ancho, alto) \<Rightarrow>
        if ancho \<le> 0 \<or> alto \<le> 0 then Inl (Exception ''height and width must be > 0'')
        else Inr \<lparr> img_size = (nat ancho, nat alto),
                   img_data = replicate (nat ancho * nat alto)
                                (if img_data img = [] then (0, 0, 0)
                                 else hd (img_data img)) \<rparr>)"

fun centros_demo :: "nat \<Rightarrow> nat \<Rightarrow> color list" where
  "centros_demo s 0 = []"
| "centros_demo s (Suc n) =
     (if even s then (0, 0, 0) else (255, 0, 0)) # centros_demo (Suc s) n"

definition kmeans_demo ::
  "nat \<Rightarrow> int \<Rightarrow> int option \<Rightarrow> int \<Rightarrow> pixel list \<Rightarrow> exn + color list" where
  "kmeans_demo rng n_clusters random_state n_init X =
     (if n_clusters < 1 \<or> int (length X) < n_clusters
      then Inl (Exception ''n_samples should be >= n_clusters'')
      else Inr (centros_demo (case random_state of Some s \<Rightarrow> nat s | None \<Rightarrow> rng)
                  (nat n_clusters)))"

definition mundo_demo :: "rgb_image collaborators" where
  "mundo_demo = \<lparr> open_file = archivos_demo, decode = decode_demo, convert_RGB = Inr,
                   resize = resize_demo, kmeans_fit = kmeans_demo \<rparr>"

text \<open>The same world with a clusterer that refuses fewer distinct samples than clusters.\<close>

definition kmeans_estricto ::
  "nat \<Rightarrow> int \<Rightarrow> int option \<Rightarrow> int \<Rightarrow> pixel list \<Rightarrow> exn + color list" where
  "kmeans_estricto rng n_clusters random_state n_init X =
     (if int (card (set X)) < n_clusters
      then Inl (Exception ''fewer distinct samples than clusters'')
      else kmeans_demo rng n_clusters random_state n_init X)"

definition mundo_estricto :: "rgb_image collaborators" where
  "mundo_estricto = mundo_demo \<lparr> kmeans_fit := kmeans_estricto \<rparr>"

text \<open>
  The same world with a clusterer that returns the first \<open>n_clusters\<close> samples as its
  centres, and with one that returns a given list of centres.
\<close>

fun centro_de :: "pixel \<Rightarrow> color" where
  "centro_de (r, g, b) = (real (unat r), real (unat g), real (unat b))"

definition kmeans_muestras ::
  "nat \<Rightarrow> int \<Rightarrow> int option \<Rightarrow> int \<Rightarrow> pixel list \<Rightarrow> exn + color list" where
  "kmeans_muestras rng n_clusters random_state n_init X =
     (if n_clusters < 1 \<or> int (length X) < n_clusters
      then Inl (Exception ''n_samples should be >= n_clusters'')
      else Inr (map centro_de (take (nat n_clusters) X)))"

definition mundo_muestras :: "rgb_image collaborators" where
  "mundo_muestras = mundo_demo \<lparr> kmeans_fit := kmeans_muestras \<rparr>"

definition kmeans_fijo ::
  "color list \<Rightarrow> nat \<Rightarrow> int \<Rightarrow> int option \<Rightarrow> int \<Rightarrow> pixel list \<Rightarrow> exn + color list" where
  "kmeans_fijo centers rng n_clusters random_state n_init X = Inr centers"

text \<open>
  An image of four black pixels and four dark ones. Its two clusters are the black pixels
  and the dark pixels, with the means (0, 0, 0) and (0, 6, 11.25). After division by 255 the
  exact distance of the two means is the decimal 0.05. The world \<open>mundo_centros\<close> decodes
  its file to this image and its clusterer returns the centres it is given;
  \<open>colores_cercanos\<close> are the two colours the code makes of the two means.
\<close>

definition imagen_cercana :: rgb_image where
  "imagen_cercana =
     \<lparr> img_size = (4, 2),
       img_data = [(0, 0, 0), (0, 0, 0), (0, 0, 0), (0, 0, 0),
                   (0, 6, 11), (0, 6, 11), (0, 6, 11), (0, 6, 12)] \<rparr>"

definition mundo_centros :: "color list \<Rightarrow> rgb_image collaborators" where
  "mundo_centros centers =
     mundo_demo \<lparr> decode := \<lambda>b. Inr imagen_cercana, kmeans_fit := kmeans_fijo centers \<rparr>"

definition centros_cercanos :: "color list" where
  "centros_cercanos = [(0, 0, 0), (0, 6, 45 / 4)]"

definition colores_cercanos :: "color list" where
  "colores_cercanos =
     [(0, 0, 0),
      (0, 847736400446211 / 36028797018963968, 6358023003346583 / 144115188075855872)]"

text \<open>A second file system, holding the same bytes under another name.\<close>

definition archivos_copia :: "string \<Rightarrow> exn + 8 word list" where
  "archivos_copia path =
     (if path = ''copia.png'' then Inr [137, 80, 78, 71]
      else Inl (FileNotFoundError (''No such file or directory: '' @ path)))"

text \<open>Two images for the sampler: 100 by 100, and a single pixel.\<close>

definition imagen_100 :: rgb_image where
  "imagen_100 = \<lparr> img_size = (100, 100), img_data = replicate (100 * 100) (7, 7, 7) \<rparr>"

definition imagen_pixel :: rgb_image where
  "imagen_pixel = \<lparr> img_size = (1, 1), img_data = [(7, 7, 7)] \<rparr>"

text \<open>
  A scene as a run with spheres and the default prefix leaves it: the material of a sphere
  is in use, a second palette material has no user, and there are a material and two
  objects of the user's own.
\<close>

definition escena_demo :: bpy_data where
  "escena_demo =
     \<lparr> materials = [\<lparr> mat_name = ''Paleta_00'', mat_users = 1 \<rparr>,
                     \<lparr> mat_name = ''Paleta_01'', mat_users = 0 \<rparr>,
                     \<lparr> mat_name = ''Madera'', mat_users = 0 \<rparr>],
       objects = [''Paleta_00'', ''Cube'', ''Mi_Color_Referencia_3''] \<rparr>"

section \<open>Properties\<close>

subsection \<open>Rounding\<close>

lemma rne_nonneg: "0 \<le> y \<Longrightarrow> 0 \<le> rne y"
  by (simp add: rne_def Let_def)

lemma rne_of_int: "rne (of_int m) = m"
  by (simp add: rne_def Let_def)

lemma cuanto_pos: "0 < cuanto x"
  by (simp add: cuanto_def)

lemma cuanto_minus: "cuanto (- x) = cuanto x"
  by (simp add: cuanto_def)

lemma round64_zero: "round64 0 = 0"
  by (simp add: round64_def)

lemma round64_minus: "round64 (- x) = - round64 x"
  by (simp add: round64_def cuanto_minus sgn_minus)

lemma round64_nonneg: "0 \<le> x \<Longrightarrow> 0 \<le> round64 x"
proof -
  assume x: "0 \<le> x"
  have "0 \<le> \<bar>x\<bar> / cuanto x" using cuanto_pos [of x] by simp
  then have "0 \<le> rne (\<bar>x\<bar> / cuanto x)" by (rule rne_nonneg)
  then have "0 \<le> sgn x * of_int (rne (\<bar>x\<bar> / cuanto x)) * cuanto x"
    using x cuanto_pos [of x] by (simp add: sgn_if)
  then show ?thesis by (simp add: round64_def)
qed

lemma cuanto_eval:
  fixes x :: real and n :: nat
  assumes lo: "2 ^ 52 \<le> \<bar>x\<bar> * 2 ^ n" and hi: "\<bar>x\<bar> * 2 ^ n < 2 ^ 53" and n: "n \<le> 1074"
  shows "cuanto x = 1 / 2 ^ n"
proof -
  have pos: "0 < \<bar>x\<bar>"
  proof (rule ccontr)
    assume "\<not> 0 < \<bar>x\<bar>"
    then have "\<bar>x\<bar> = 0" by simp
    with lo show False by simp
  qed
  have p: "(2::real) powr of_int (52 - int n) = 2 ^ 52 / 2 ^ n"
  proof -
    have "(2::real) powr of_int (52 - int n) = 2 powr (real 52 - real n)" by simp
    also have "\<dots> = 2 powr real 52 / 2 powr real n" by (rule powr_diff)
    also have "\<dots> = 2 ^ 52 / 2 ^ n" by (simp only: powr_realpow zero_less_numeral)
    finally show ?thesis .
  qed
  have q: "(2::real) powr of_int (52 - int n + 1) = 2 ^ 53 / 2 ^ n"
  proof -
    have "(2::real) powr of_int (52 - int n + 1) = 2 powr (real 53 - real n)" by simp
    also have "\<dots> = 2 powr real 53 / 2 powr real n" by (rule powr_diff)
    also have "\<dots> = 2 ^ 53 / 2 ^ n" by (simp only: powr_realpow zero_less_numeral)
    finally show ?thesis .
  qed
  have "2 ^ 52 / 2 ^ n \<le> \<bar>x\<bar>"
    using lo by (simp add: pos_divide_le_eq)
  then have "2 powr of_int (52 - int n) \<le> \<bar>x\<bar>"
    by (simp only: p)
  moreover have "\<bar>x\<bar> < 2 ^ 53 / 2 ^ n"
    using hi by (simp add: pos_less_divide_eq)
  then have "\<bar>x\<bar> < 2 powr of_int (52 - int n + 1)"
    by (simp only: q)
  ultimately have "\<lfloor>log 2 \<bar>x\<bar>\<rfloor> = 52 - int n"
    using pos floor_log_eq_powr_iff [of "\<bar>x\<bar>" 2 "52 - int n"] by simp
  moreover have "max (52 - int n) (- 1022) = 52 - int n" using n by simp
  ultimately have "cuanto x = 2 powr of_int (- int n)"
    by (simp add: cuanto_def)
  also have "\<dots> = 1 / 2 ^ n"
    by (simp add: powr_minus powr_realpow divide_inverse)
  finally show ?thesis .
qed

lemma round64_eval:
  fixes x :: real and n :: nat
  assumes "2 ^ 52 \<le> \<bar>x\<bar> * 2 ^ n" and "\<bar>x\<bar> * 2 ^ n < 2 ^ 53" and "n \<le> 1074"
  shows "round64 x = sgn x * of_int (rne (\<bar>x\<bar> * 2 ^ n)) / 2 ^ n"
proof -
  have "x \<noteq> 0" using assms(1) by auto
  then show ?thesis
    by (simp add: round64_def cuanto_eval [OF assms])
qed

lemma round64_one: "round64 1 = 1"
  using round64_eval [of 1 52] rne_of_int [of "2 ^ 52"] by simp

lemma round64_two: "round64 2 = 2"
  using round64_eval [of 2 51] rne_of_int [of "2 ^ 52"] by simp

lemma round64_half: "round64 (1 / 2) = 1 / 2"
  using round64_eval [of "1 / 2" 53] rne_of_int [of "2 ^ 52"] by simp

lemma round64_50: "round64 50 = 50"
  using round64_eval [of 50 47] rne_of_int [of "50 * 2 ^ 47"] by simp

lemma rne_near:
  assumes "of_int m - 1 / 2 < y" and "y < of_int m + 1 / 2"
  shows "rne y = m"
proof -
  have "\<lfloor>y\<rfloor> = m - 1 \<or> \<lfloor>y\<rfloor> = m"
    using assms by linarith
  then show ?thesis
  proof
    assume f: "\<lfloor>y\<rfloor> = m - 1"
    then have "y < of_int m" by linarith
    with assms(1) f show ?thesis by (simp add: rne_def Let_def)
  next
    assume f: "\<lfloor>y\<rfloor> = m"
    with assms(2) show ?thesis by (simp add: rne_def Let_def)
  qed
qed

lemma round64_sqrt_eval:
  fixes s :: real and m :: int and n :: nat
  assumes m: "2 ^ 52 < m" "m < 2 ^ 53" and n: "n \<le> 1074"
    and lo: "(2 * of_int m - 1) ^ 2 < 4 * s * 4 ^ n"
    and hi: "4 * s * 4 ^ n < (2 * of_int m + 1) ^ 2"
  shows "round64 (sqrt s) = of_int m / 2 ^ n"
proof -
  define y where "y = sqrt s * 2 ^ n"
  have mr: "(2::real) ^ 52 < of_int m" "of_int m < (2::real) ^ 53"
    using m by (simp_all flip: of_int_less_iff)
  have mi: "of_int m + 1 \<le> (2::real) ^ 53"
  proof -
    from m(2) have "m + 1 \<le> 2 ^ 53" by simp
    then have "of_int (m + 1) \<le> (of_int (2 ^ 53) :: real)" by (simp only: of_int_le_iff)
    then show ?thesis by simp
  qed
  have ml: "(2::real) ^ 52 + 1 \<le> of_int m"
  proof -
    from m(1) have "2 ^ 52 + 1 \<le> m" by simp
    then have "(of_int (2 ^ 52 + 1) :: real) \<le> of_int m" by (simp only: of_int_le_iff)
    then show ?thesis by simp
  qed
  have "0 \<le> (2 * of_int m - 1 :: real) ^ 2" by simp
  with lo have "0 < 4 * s * 4 ^ n" by linarith
  then have spos: "0 < s" by (simp add: zero_less_mult_iff)
  then have ypos: "0 \<le> y" by (simp add: y_def)
  have "4 ^ n = ((2::real) ^ n) ^ 2"
    by (simp add: power_mult [symmetric] power2_eq_square power_mult_distrib [symmetric])
  then have y2: "(2 * y) ^ 2 = 4 * s * 4 ^ n"
    using spos by (simp add: y_def power_mult_distrib)
  have a: "2 * of_int m - 1 < 2 * y"
  proof (rule ccontr)
    assume "\<not> 2 * of_int m - 1 < 2 * y"
    then have "2 * y \<le> 2 * of_int m - 1" by simp
    with ypos have "(2 * y) ^ 2 \<le> (2 * of_int m - 1) ^ 2"
      by (intro power_mono) simp_all
    with lo y2 show False by simp
  qed
  have b: "2 * y < 2 * of_int m + 1"
  proof (rule ccontr)
    assume "\<not> 2 * y < 2 * of_int m + 1"
    then have "2 * of_int m + 1 \<le> 2 * y" by simp
    moreover have "0 \<le> (2 * of_int m + 1 :: real)" using mr by simp
    ultimately have "(2 * of_int m + 1) ^ 2 \<le> (2 * y) ^ 2"
      by (intro power_mono) simp_all
    with hi y2 show False by simp
  qed
  have r: "rne y = m"
    using a b by (intro rne_near) simp_all
  have abs: "\<bar>sqrt s\<bar> = sqrt s" using spos by simp
  have lo': "2 ^ 52 \<le> \<bar>sqrt s\<bar> * 2 ^ n"
    unfolding abs using a ml by (simp add: y_def)
  have hi': "\<bar>sqrt s\<bar> * 2 ^ n < 2 ^ 53"
    unfolding abs using b mi by (simp add: y_def)
  have "round64 (sqrt s) = sgn (sqrt s) * of_int (rne (\<bar>sqrt s\<bar> * 2 ^ n)) / 2 ^ n"
    using lo' hi' n by (rule round64_eval)
  also have "\<dots> = of_int m / 2 ^ n"
    unfolding abs using spos r by (simp add: y_def)
  finally show ?thesis .
qed

lemma round64_sqrt_two: "round64 (sqrt 2) = 6369051672525773 / 4503599627370496"
  using round64_sqrt_eval [of 6369051672525773 52 2] by simp

lemma round64_tres_decimos: "round64 (3 / 10) = 5404319552844595 / 18014398509481984"
proof -
  have "rne (5404319552844595 + 1 / 5) = 5404319552844595"
    by (simp add: rne_def Let_def)
  then show ?thesis
    using round64_eval [of "3 / 10" 54] by simp
qed

lemma tolerancia_valor: "TOLERANCIA_COLOR_UNICOS = 3602879701896397 / 72057594037927936"
proof -
  have "rne (7205759403792793 + 3 / 5) = 7205759403792794"
    by (simp add: rne_def Let_def)
  then show ?thesis
    using round64_eval [of "5 / 100" 57] by (simp add: TOLERANCIA_COLOR_UNICOS_def)
qed

lemmas flotante = fadd_def fsub_def fmul_def fdiv_def fsqrt_def round64_zero round64_one
  round64_two round64_minus round64_sqrt_two

subsection \<open>The distance\<close>

lemma fsub_swap: "fsub a b = - fsub b a"
proof -
  have "a - b = - (b - a)" by simp
  then show ?thesis unfolding fsub_def by (simp only: round64_minus)
qed

lemma fmul_minus_minus: "fmul (- a) (- a) = fmul a a"
  by (simp add: fmul_def)

lemma fmul_self_nonneg: "0 \<le> fmul a a"
  unfolding fmul_def by (rule round64_nonneg) simp

lemma fadd_nonneg: "0 \<le> a \<Longrightarrow> 0 \<le> b \<Longrightarrow> 0 \<le> fadd a b"
  unfolding fadd_def by (rule round64_nonneg) simp

lemma linalg_norm_nonneg: "0 \<le> linalg_norm v"
proof (cases v)
  case (fields r g b)
  have "0 \<le> fadd (fadd (fmul r r) (fmul g g)) (fmul b b)"
    by (intro fadd_nonneg fmul_self_nonneg)
  then have "0 \<le> round64 (sqrt (fadd (fadd (fmul r r) (fmul g g)) (fmul b b)))"
    by (intro round64_nonneg) simp
  then show ?thesis by (simp add: fields fsqrt_def)
qed

lemma distance_sym: "distance a b = distance b a"
proof -
  obtain r1 g1 b1 where a: "a = (r1, g1, b1)" by (cases a) auto
  obtain r2 g2 b2 where b: "b = (r2, g2, b2)" by (cases b) auto
  have sq: "fmul (fsub x y) (fsub x y) = fmul (fsub y x) (fsub y x)" for x y
    using fmul_minus_minus [of "fsub y x"] fsub_swap [of x y] by simp
  show ?thesis
    by (simp add: a b distance_def sq [of r1 r2] sq [of g1 g2] sq [of b1 b2])
qed

lemma distance_nonneg: "0 \<le> distance a b"
  by (simp add: distance_def linalg_norm_nonneg)

lemma distance_self: "distance a a = 0"
  by (cases a) (simp add: distance_def flotante)

subsection \<open>The two loops\<close>

lemma is_unique_iff:
  "is_unique t c acc \<longleftrightarrow> (\<forall>e \<in> set acc. t \<le> distance c e)"
  by (induction acc) (auto simp: not_less)

lemma is_unique_accepts: "is_unique t c acc = accepts distance t acc c"
  by (auto simp: is_unique_iff accepts_def)

lemma filtrar_loop_foldl:
  "filtrar_loop t cs acc =
     foldl (\<lambda>accepted candidate.
              if accepts distance t accepted candidate then accepted @ [candidate]
              else accepted) acc cs"
  by (induction cs arbitrary: acc) (simp_all add: is_unique_accepts)

lemma filtrar_loop_extends:
  "\<exists>ys. filtrar_loop t cs acc = acc @ ys \<and> subseq ys cs"
proof (induction cs arbitrary: acc)
  case Nil
  then show ?case by simp
next
  case (Cons c cs)
  show ?case
  proof (cases "is_unique t c acc")
    case True
    from Cons.IH [of "acc @ [c]"] obtain ys
      where "filtrar_loop t cs (acc @ [c]) = (acc @ [c]) @ ys" "subseq ys cs" by blast
    with True have "filtrar_loop t (c # cs) acc = acc @ (c # ys) \<and> subseq (c # ys) (c # cs)"
      by simp
    then show ?thesis by blast
  next
    case False
    from Cons.IH [of acc] obtain ys
      where "filtrar_loop t cs acc = acc @ ys" "subseq ys cs" by blast
    with False have "filtrar_loop t (c # cs) acc = acc @ ys \<and> subseq ys (c # cs)"
      by (simp add: list_emb_Cons)
    then show ?thesis by blast
  qed
qed

lemma subseq_colores: "subseq (colores_finales_unicos t cs) cs"
  using filtrar_loop_extends [of t cs "[]"] by (auto simp: colores_finales_unicos_def)

lemma length_colores: "length (colores_finales_unicos t cs) \<le> length cs"
  using subseq_colores [of t cs] by (rule list_emb_length)

lemma separados_snoc:
  "separados t (xs @ [c]) \<longleftrightarrow> separados t xs \<and> (\<forall>e \<in> set xs. t \<le> distance c e)"
  by (induction xs) auto

lemma filtrar_loop_separados:
  "separados t acc \<Longrightarrow> separados t (filtrar_loop t cs acc)"
  by (induction cs arbitrary: acc) (simp_all add: separados_snoc is_unique_iff)

lemma separados_colores: "separados t (colores_finales_unicos t cs)"
  by (simp add: colores_finales_unicos_def filtrar_loop_separados)

lemma separados_nth:
  "separados t xs \<Longrightarrow> i < j \<Longrightarrow> j < length xs \<Longrightarrow> t \<le> distance (xs ! j) (xs ! i)"
proof (induction xs arbitrary: i j)
  case Nil
  then show ?case by simp
next
  case (Cons x xs)
  then show ?case
    by (cases i; cases j) auto
qed

lemma separados_apart:
  assumes "separados t xs" "i < length xs" "j < length xs" "i \<noteq> j"
  shows "t \<le> distance (xs ! i) (xs ! j)"
proof (cases "i < j")
  case True
  with assms separados_nth [of t xs i j] show ?thesis by (simp add: distance_sym)
next
  case False
  with assms have "j < i" by simp
  with assms separados_nth [of t xs j i] show ?thesis by simp
qed

lemma filtrar_loop_nonpositive: "t \<le> 0 \<Longrightarrow> filtrar_loop t cs acc = acc @ cs"
proof (induction cs arbitrary: acc)
  case Nil
  then show ?case by simp
next
  case (Cons c cs)
  have "is_unique t c acc"
    using Cons.prems distance_nonneg [of c] by (auto simp: is_unique_iff intro: order_trans)
  with Cons show ?case by simp
qed

lemma filtrar_loop_first:
  "filtrar_loop t (c # cs) [] \<noteq> [] \<and> hd (filtrar_loop t (c # cs) []) = c"
  using filtrar_loop_extends [of t cs "[c]"] by auto

subsection \<open>The function as a whole\<close>

lemma extraer_Some:
  assumes "snd (extraer_paleta_de_imagen w rng imagen_path num_colores reescalar_factor tol)
             = Some paleta"
  shows "\<exists>pixels centers.
           kmeans_fit w rng num_colores (Some 0) 10 pixels = Inr centers
           \<and> paleta = colores_finales_unicos tol (map normalizar centers)"
  using assms
  by (auto simp: extraer_paleta_de_imagen_def cuerpo_def split: sum.splits exn.splits)

lemma length_centros_demo: "length (centros_demo s n) = n"
  by (induction n arbitrary: s) simp_all

lemmas demo_defs = extraer_paleta_de_imagen_def cuerpo_def Image_open_def mundo_demo_def
  archivos_demo_def decode_demo_def muestrear_def kmeans_demo_def imagen_demo_def
  colores_finales_unicos_def distance_def flotante resize_demo_def nuevo_tamano_def py_int_def

lemma demo_tres:
  "extraer_paleta_de_imagen mundo_demo 0 ''dos_colores.png'' 3 1 (1 / 2)
     = ([], Some [(0, 0, 0), (1, 0, 0)])"
  by (simp add: demo_defs numeral_3_eq_3)

subsection \<open>Two colours at the edge of the tolerance\<close>

lemma fdiv_seis: "fdiv 6 255 = 847736400446211 / 36028797018963968"
proof -
  have "rne (576460752303423488 / 85) = 6781891203569688"
    by (simp add: rne_def Let_def)
  then show ?thesis
    using round64_eval [of "6 / 255" 58] by (simp add: fdiv_def)
qed

lemma fdiv_once: "fdiv (45 / 4) 255 = 6358023003346583 / 144115188075855872"
proof -
  have "rne (108086391056891904 / 17) = 6358023003346583"
    by (simp add: rne_def Let_def)
  then show ?thesis
    using round64_eval [of "45 / 4 / 255" 57] by (simp add: fdiv_def)
qed

lemma normalizar_cercanos: "map normalizar centros_cercanos = colores_cercanos"
  by (simp add: centros_cercanos_def colores_cercanos_def fdiv_seis fdiv_once)
     (simp add: fdiv_def round64_zero)

lemma round64_verde:
  "round64 (847736400446211 / 36028797018963968) = 847736400446211 / 36028797018963968"
  using round64_eval [of "847736400446211 / 36028797018963968" 58]
  by (simp add: rne_def Let_def)

lemma round64_azul:
  "round64 (6358023003346583 / 144115188075855872) = 6358023003346583 / 144115188075855872"
  using round64_eval [of "6358023003346583 / 144115188075855872" 57]
  by (simp add: rne_def Let_def)

lemma fmul_verde:
  "fmul (847736400446211 / 36028797018963968) (847736400446211 / 36028797018963968)
     = 2553182570755647 / 4611686018427387904"
  using round64_eval
          [of "847736400446211 / 36028797018963968 * (847736400446211 / 36028797018963968)" 63]
  by (simp add: fmul_def rne_def Let_def)

lemma fmul_azul:
  "fmul (6358023003346583 / 144115188075855872) (6358023003346583 / 144115188075855872)
     = 1122004059414103 / 576460752303423488"
  using round64_eval
          [of "6358023003346583 / 144115188075855872 * (6358023003346583 / 144115188075855872)"
              62]
  by (simp add: fmul_def rne_def Let_def)

lemma round64_verde2:
  "round64 (2553182570755647 / 4611686018427387904) = 2553182570755647 / 4611686018427387904"
  using round64_eval [of "2553182570755647 / 4611686018427387904" 63]
  by (simp add: rne_def Let_def)

lemma fadd_cuadrados:
  "fadd (2553182570755647 / 4611686018427387904) (1122004059414103 / 576460752303423488)
     = 1441151880758559 / 576460752303423488"
  using round64_eval
          [of "2553182570755647 / 4611686018427387904 + 1122004059414103 / 576460752303423488"
              61]
  by (simp add: fadd_def rne_def Let_def)

lemma fsqrt_suma:
  "fsqrt (1441151880758559 / 576460752303423488) = 3602879701896397 / 72057594037927936"
  using round64_sqrt_eval [of 7205759403792794 57 "1441151880758559 / 576460752303423488"]
  by (simp add: fsqrt_def)

lemma distance_cercanos:
  "distance (0, 847736400446211 / 36028797018963968, 6358023003346583 / 144115188075855872)
     (0, 0, 0) = TOLERANCIA_COLOR_UNICOS"
proof -
  have "resta (0, 847736400446211 / 36028797018963968, 6358023003346583 / 144115188075855872)
          (0, 0, 0)
        = (0, 847736400446211 / 36028797018963968, 6358023003346583 / 144115188075855872)"
    by (simp add: fsub_def round64_zero round64_verde round64_azul)
  moreover have
    "linalg_norm (0, 847736400446211 / 36028797018963968, 6358023003346583 / 144115188075855872)
       = 3602879701896397 / 72057594037927936"
  proof -
    have "fmul 0 0 = 0" by (simp add: fmul_def round64_zero)
    moreover have "fadd 0 (2553182570755647 / 4611686018427387904)
                     = 2553182570755647 / 4611686018427387904"
      by (simp add: fadd_def round64_verde2)
    ultimately show ?thesis
      by (simp only: linalg_norm.simps fmul_verde fmul_azul fadd_cuadrados fsqrt_suma)
  qed
  ultimately show ?thesis
    by (simp only: distance_def tolerancia_valor)
qed

lemma euclid_cercanos:
  "euclid (0, 847736400446211 / 36028797018963968, 6358023003346583 / 144115188075855872)
     (0, 0, 0) < TOLERANCIA_COLOR_UNICOS"
proof -
  have "sqrt (847736400446211 / 36028797018963968 * (847736400446211 / 36028797018963968)
              + 6358023003346583 / 144115188075855872
                * (6358023003346583 / 144115188075855872))
          < 3602879701896397 / 72057594037927936"
    by (rule real_less_lsqrt) (simp_all add: power2_eq_square)
  then show ?thesis
    by (simp add: tolerancia_valor)
qed

lemma colores_cercanos_se_quedan:
  "colores_finales_unicos TOLERANCIA_COLOR_UNICOS colores_cercanos = colores_cercanos"
  by (simp add: colores_finales_unicos_def colores_cercanos_def distance_cercanos)

subsection \<open>Claims about the deduplicated palette\<close>

text \<open>
  C1, as the code has it. Whenever the extraction returns a palette, any two of its entries
  at different positions are at distance at least the tolerance, where the distance is the
  float64 value the code computes for them (the rounded norm of the rounded difference);
  for a positive tolerance they are therefore different colours. The palette is a
  subsequence of the normalised centres the clusterer returned: a close colour is left
  out, never merged or averaged.
\<close>

theorem palette_colours_pairwise_apart:
  assumes "snd (extraer_paleta_de_imagen w rng imagen_path num_colores reescalar_factor tol)
             = Some paleta"
    and "i < length paleta" and "j < length paleta" and "i \<noteq> j"
  shows "tol \<le> distance (paleta ! i) (paleta ! j)
         \<and> (0 < tol \<longrightarrow> paleta ! i \<noteq> paleta ! j)
         \<and> (\<exists>pixels centers.
               kmeans_fit w rng num_colores (Some 0) 10 pixels = Inr centers
               \<and> subseq paleta (map normalizar centers))"
proof -
  from extraer_Some [OF assms(1)] obtain pixels centers
    where k: "kmeans_fit w rng num_colores (Some 0) 10 pixels = Inr centers"
      and p: "paleta = colores_finales_unicos tol (map normalizar centers)"
    by blast
  have sep: "separados tol paleta"
    by (simp add: p separados_colores)
  have d: "tol \<le> distance (paleta ! i) (paleta ! j)"
    using sep assms(2-4) by (rule separados_apart)
  have ne: "paleta ! i \<noteq> paleta ! j" if "0 < tol"
  proof
    assume "paleta ! i = paleta ! j"
    with d have "tol \<le> 0" by (simp add: distance_self)
    with that show False by simp
  qed
  have "subseq paleta (map normalizar centers)"
    by (simp add: p subseq_colores)
  with k d ne show ?thesis by blast
qed

theorem palette_colours_pairwise_apart_witness:
  "snd (extraer_paleta_de_imagen mundo_demo 0 ''dos_colores.png'' 3 1 (1 / 2))
     = Some [(0, 0, 0), (1, 0, 0)]
   \<and> (1 / 2 :: real) \<le> distance (0, 0, 0) (1, 0, 0)
   \<and> ((0, 0, 0) :: color) \<noteq> (1, 0, 0)"
proof -
  have h: "snd (extraer_paleta_de_imagen mundo_demo 0 ''dos_colores.png'' 3 1 (1 / 2))
             = Some [(0, 0, 0), (1, 0, 0)]"
    by (simp add: demo_tres)
  from palette_colours_pairwise_apart [OF h, of 0 1] show ?thesis
    using h by simp
qed

text \<open>
  C1 as stated is about the Euclidean distance itself. For the image whose two clusters
  have the means (0, 0, 0) and (0, 6, 11.25), and the default tolerance, the code returns
  both colours, because the distance it computes is the tolerance exactly, while their
  Euclidean distance is below the tolerance.
\<close>

theorem palette_colours_pairwise_apart_counterexample:
  "snd (extraer_paleta_de_imagen (mundo_centros centros_cercanos) 0 ''dos_colores.png'' 2 1
          TOLERANCIA_COLOR_UNICOS) = Some colores_cercanos
   \<and> euclid (colores_cercanos ! 1) (colores_cercanos ! 0) < TOLERANCIA_COLOR_UNICOS"
proof -
  have "cuerpo (mundo_centros centros_cercanos) 0 ''dos_colores.png'' 2 1
          TOLERANCIA_COLOR_UNICOS
        = Inr (colores_finales_unicos TOLERANCIA_COLOR_UNICOS (map normalizar centros_cercanos))"
    by (simp add: cuerpo_def Image_open_def mundo_centros_def mundo_demo_def archivos_demo_def
          muestrear_def kmeans_fijo_def)
  then have "snd (extraer_paleta_de_imagen (mundo_centros centros_cercanos) 0 ''dos_colores.png''
                    2 1 TOLERANCIA_COLOR_UNICOS) = Some colores_cercanos"
    by (simp add: extraer_paleta_de_imagen_def normalizar_cercanos colores_cercanos_se_quedan)
  moreover have "euclid (colores_cercanos ! 1) (colores_cercanos ! 0) < TOLERANCIA_COLOR_UNICOS"
    using euclid_cercanos by (simp add: colores_cercanos_def)
  ultimately show ?thesis by blast
qed

text \<open>
  C2. The deduplicator never returns more colours than it was given; so, for a clusterer
  that returns \<open>n_clusters\<close> centres, a returned palette has at most \<open>num_colores\<close>
  entries.
\<close>

theorem palette_length_at_most_target:
  assumes "kmeans_devuelve_k w"
    and "snd (extraer_paleta_de_imagen w rng imagen_path num_colores reescalar_factor tol)
           = Some paleta"
  shows "int (length paleta) \<le> num_colores
         \<and> length (colores_finales_unicos tol centers) \<le> length centers"
proof -
  from extraer_Some [OF assms(2)] obtain pixels cs
    where k: "kmeans_fit w rng num_colores (Some 0) 10 pixels = Inr cs"
      and p: "paleta = colores_finales_unicos tol (map normalizar cs)"
    by blast
  from assms(1) k have "int (length cs) = num_colores"
    unfolding kmeans_devuelve_k_def by blast
  moreover have "length paleta \<le> length cs"
    using length_colores [of tol "map normalizar cs"] by (simp add: p)
  ultimately show ?thesis
    using length_colores [of tol centers] by simp
qed

theorem palette_length_at_most_target_witness:
  "kmeans_devuelve_k mundo_demo
   \<and> snd (extraer_paleta_de_imagen mundo_demo 0 ''dos_colores.png'' 3 1 (1 / 2))
       = Some [(0, 0, 0), (1, 0, 0)]
   \<and> int (length [(0, 0, 0) :: color, (1, 0, 0)]) \<le> 3"
proof -
  have c: "kmeans_devuelve_k mundo_demo"
    by (auto simp: kmeans_devuelve_k_def mundo_demo_def kmeans_demo_def length_centros_demo
          split: if_splits)
  have h: "snd (extraer_paleta_de_imagen mundo_demo 0 ''dos_colores.png'' 3 1 (1 / 2))
             = Some [(0, 0, 0), (1, 0, 0)]"
    by (simp add: demo_tres)
  from palette_length_at_most_target [OF c h, of "[]"] show ?thesis
    using c h by simp
qed

text \<open>
  C3, as the code has it. The two loops of the source compute the greedy single pass of
  the specification, taken with the distance the code computes in float64: candidates in
  input order, accepted when the accepted list is empty or every accepted colour is at
  computed distance at least the tolerance, appended in that order, otherwise dropped for
  good. The result is a subsequence of the input.
\<close>

theorem deduplicator_is_greedy_pass:
  "colores_finales_unicos tol centroids = deduplicate_spec distance tol centroids
   \<and> subseq (colores_finales_unicos tol centroids) centroids"
proof -
  have "colores_finales_unicos tol centroids = deduplicate_spec distance tol centroids"
    by (simp add: colores_finales_unicos_def deduplicate_spec_def filtrar_loop_foldl)
  moreover have "subseq (colores_finales_unicos tol centroids) centroids"
    by (rule subseq_colores)
  ultimately show ?thesis by blast
qed

theorem deduplicator_is_greedy_pass_witness:
  "colores_finales_unicos (1 / 2) [(0, 0, 0), (0, 0, 0), (1, 0, 0), (0, 1, 0), (1, 0, 0)]
     = [(0, 0, 0), (1, 0, 0), (0, 1, 0)]
   \<and> deduplicate_spec distance (1 / 2)
         [(0, 0, 0), (0, 0, 0), (1, 0, 0), (0, 1, 0), (1, 0, 0)]
       = [(0, 0, 0), (1, 0, 0), (0, 1, 0)]
   \<and> subseq [(0, 0, 0), (1, 0, 0), (0, 1, 0) :: color]
         [(0, 0, 0), (0, 0, 0), (1, 0, 0), (0, 1, 0), (1, 0, 0)]"
proof -
  have e: "colores_finales_unicos (1 / 2)
             [(0, 0, 0), (0, 0, 0), (1, 0, 0), (0, 1, 0), (1, 0, 0)]
           = [(0, 0, 0), (1, 0, 0), (0, 1, 0)]"
    by (simp add: colores_finales_unicos_def distance_def flotante)
  have t: "[(0, 0, 0), (1, 0, 0), (0, 1, 0)]
             = deduplicate_spec distance (1 / 2)
                 [(0, 0, 0), (0, 0, 0), (1, 0, 0), (0, 1, 0), (1, 0, 0)]
           \<and> subseq [(0, 0, 0), (1, 0, 0), (0, 1, 0) :: color]
               [(0, 0, 0), (0, 0, 0), (1, 0, 0), (0, 1, 0), (1, 0, 0)]"
    using deduplicator_is_greedy_pass
            [of "1 / 2" "[(0, 0, 0), (0, 0, 0), (1, 0, 0), (0, 1, 0), (1, 0, 0)]"]
    unfolding e .
  from t have "deduplicate_spec distance (1 / 2)
                 [(0, 0, 0), (0, 0, 0), (1, 0, 0), (0, 1, 0), (1, 0, 0)]
               = [(0, 0, 0), (1, 0, 0), (0, 1, 0)]"
    by (rule conjunct1 [THEN sym])
  moreover from t have "subseq [(0, 0, 0), (1, 0, 0), (0, 1, 0) :: color]
                          [(0, 0, 0), (0, 0, 0), (1, 0, 0), (0, 1, 0), (1, 0, 0)]"
    by (rule conjunct2)
  ultimately show ?thesis using e by blast
qed

text \<open>
  C3 as stated accepts by the Euclidean distance itself. On the two colours that the code
  makes of the centres (0, 0, 0) and (0, 6, 11.25), with the default tolerance, the loops
  keep both, and the greedy pass with the Euclidean distance keeps the first only.
\<close>

theorem deduplicator_is_greedy_pass_counterexample:
  "colores_finales_unicos TOLERANCIA_COLOR_UNICOS colores_cercanos = colores_cercanos
   \<and> deduplicate_spec euclid TOLERANCIA_COLOR_UNICOS colores_cercanos = [(0, 0, 0)]
   \<and> colores_cercanos \<noteq> [(0, 0, 0)]"
proof -
  have "\<not> TOLERANCIA_COLOR_UNICOS
            \<le> euclid (0, 847736400446211 / 36028797018963968,
                       6358023003346583 / 144115188075855872) (0, 0, 0)"
    using euclid_cercanos by (simp only: not_le)
  then have "deduplicate_spec euclid TOLERANCIA_COLOR_UNICOS colores_cercanos = [(0, 0, 0)]"
    by (simp add: deduplicate_spec_def accepts_def colores_cercanos_def del: euclid.simps)
  moreover have "colores_cercanos \<noteq> [(0, 0, 0)]"
    by (simp add: colores_cercanos_def)
  ultimately show ?thesis
    using colores_cercanos_se_quedan by blast
qed

text \<open>
  C4. With tolerance 0 the test \<open>distance < tolerance\<close> never holds, every centre is
  kept, and a returned palette is the whole list of normalised centres: it has as many
  entries as the clusterer returned.
\<close>

theorem tolerance_zero_keeps_every_centroid:
  "\<not> distance new_color existing_color < 0
   \<and> colores_finales_unicos 0 centroids = centroids
   \<and> (snd (extraer_paleta_de_imagen w rng imagen_path num_colores reescalar_factor 0)
        = Some paleta
      \<longrightarrow> (\<exists>pixels centers.
             kmeans_fit w rng num_colores (Some 0) 10 pixels = Inr centers
             \<and> paleta = map normalizar centers \<and> length paleta = length centers))"
proof -
  have a: "\<not> distance new_color existing_color < 0"
    using distance_nonneg [of new_color existing_color] by simp
  have b: "colores_finales_unicos 0 cs = cs" for cs
    by (simp add: colores_finales_unicos_def filtrar_loop_nonpositive)
  have c: "\<exists>pixels centers.
             kmeans_fit w rng num_colores (Some 0) 10 pixels = Inr centers
             \<and> paleta = map normalizar centers \<and> length paleta = length centers"
    if "snd (extraer_paleta_de_imagen w rng imagen_path num_colores reescalar_factor 0)
          = Some paleta"
  proof -
    from extraer_Some [OF that] obtain pixels centers
      where k: "kmeans_fit w rng num_colores (Some 0) 10 pixels = Inr centers"
        and p: "paleta = map normalizar centers"
      unfolding b by blast
    from p have "length paleta = length centers" by simp
    with k p show ?thesis by blast
  qed
  from a b c show ?thesis by blast
qed

theorem tolerance_zero_keeps_every_centroid_witness:
  "snd (extraer_paleta_de_imagen mundo_demo 0 ''dos_colores.png'' 3 1 0)
     = Some [(0, 0, 0), (1, 0, 0), (0, 0, 0)]
   \<and> (\<exists>pixels centers.
         kmeans_fit mundo_demo 0 3 (Some 0) 10 pixels = Inr centers
         \<and> [(0, 0, 0), (1, 0, 0), (0, 0, 0)] = map normalizar centers
         \<and> length [(0, 0, 0) :: color, (1, 0, 0), (0, 0, 0)] = length centers)"
proof -
  have h: "snd (extraer_paleta_de_imagen mundo_demo 0 ''dos_colores.png'' 3 1 0)
             = Some [(0, 0, 0), (1, 0, 0), (0, 0, 0)]"
    by (simp add: demo_defs numeral_3_eq_3)
  from tolerance_zero_keeps_every_centroid
         [of _ _ _ mundo_demo 0 "''dos_colores.png''" 3 1 "[(0, 0, 0), (1, 0, 0), (0, 0, 0)]"]
  show ?thesis using h by blast
qed

text \<open>
  C10. For a non-empty list of centroids and any tolerance the deduplicator returns a
  non-empty list whose first entry is the first centroid; so when the clusterer never
  returns an empty list of centres, a returned palette is not empty.
\<close>

theorem first_centroid_is_always_kept:
  assumes "centroids \<noteq> []"
  shows "colores_finales_unicos tol centroids \<noteq> []
         \<and> hd (colores_finales_unicos tol centroids) = hd centroids
         \<and> ((\<forall>pixels. kmeans_fit w rng num_colores (Some 0) 10 pixels \<noteq> Inr [])
              \<and> snd (extraer_paleta_de_imagen w rng imagen_path num_colores reescalar_factor tol)
                  = Some paleta
            \<longrightarrow> paleta \<noteq> [])"
proof -
  have first: "colores_finales_unicos tol cs \<noteq> [] \<and> hd (colores_finales_unicos tol cs) = hd cs"
    if "cs \<noteq> []" for cs
  proof -
    from that obtain c rest where "cs = c # rest" by (cases cs) auto
    then show ?thesis
      using filtrar_loop_first [of tol c rest] by (simp add: colores_finales_unicos_def)
  qed
  have "paleta \<noteq> []"
    if nonempty: "\<forall>pixels. kmeans_fit w rng num_colores (Some 0) 10 pixels \<noteq> Inr []"
      and some: "snd (extraer_paleta_de_imagen w rng imagen_path num_colores reescalar_factor tol)
                   = Some paleta"
  proof -
    from extraer_Some [OF some] obtain pixels centers
      where k: "kmeans_fit w rng num_colores (Some 0) 10 pixels = Inr centers"
        and p: "paleta = colores_finales_unicos tol (map normalizar centers)"
      by blast
    from nonempty k have "centers \<noteq> []" by auto
    then have "map normalizar centers \<noteq> []" by simp
    from first [OF this] show ?thesis by (simp add: p)
  qed
  with first [OF assms] show ?thesis by blast
qed

theorem first_centroid_is_always_kept_witness:
  "[(1, 0, 0), (1, 0, 0), (0, 0, 0) :: color] \<noteq> []
   \<and> colores_finales_unicos 2 [(1, 0, 0), (1, 0, 0), (0, 0, 0)] = [(1, 0, 0)]
   \<and> hd (colores_finales_unicos 2 [(1, 0, 0), (1, 0, 0), (0, 0, 0)]) = (1, 0, 0)
   \<and> (\<forall>pixels. kmeans_fit mundo_demo 0 3 (Some 0) 10 pixels \<noteq> Inr [])
   \<and> snd (extraer_paleta_de_imagen mundo_demo 0 ''dos_colores.png'' 3 1 (1 / 2))
       = Some [(0, 0, 0), (1, 0, 0)]
   \<and> [(0, 0, 0), (1, 0, 0) :: color] \<noteq> []"
proof -
  have n: "[(1, 0, 0), (1, 0, 0), (0, 0, 0) :: color] \<noteq> []" by simp
  have e: "colores_finales_unicos 2 [(1, 0, 0), (1, 0, 0), (0, 0, 0)] = [(1, 0, 0)]"
    by (simp add: colores_finales_unicos_def distance_def flotante)
  have k: "\<forall>pixels. kmeans_fit mundo_demo 0 3 (Some 0) 10 pixels \<noteq> Inr []"
    by (simp add: mundo_demo_def kmeans_demo_def numeral_3_eq_3)
  have h: "snd (extraer_paleta_de_imagen mundo_demo 0 ''dos_colores.png'' 3 1 (1 / 2))
             = Some [(0, 0, 0), (1, 0, 0)]"
    by (simp add: demo_tres)
  from first_centroid_is_always_kept
         [OF n, of 2 mundo_demo 0 3 "''dos_colores.png''" 1 "[(0, 0, 0), (1, 0, 0)]"]
  show ?thesis using e k h by simp
qed

subsection \<open>Runs in the concrete world\<close>

lemma muestras_diez:
  "kmeans_fit mundo_muestras 0 10 (Some 0) 10 (img_data imagen_demo)
     = Inr (replicate 5 (255, 0, 0) @ replicate 5 (0, 0, 255))"
  by (simp add: mundo_muestras_def kmeans_muestras_def imagen_demo_def)

lemma paleta_diez:
  "colores_finales_unicos TOLERANCIA_COLOR_UNICOS
     (map normalizar (replicate 5 (255, 0, 0) @ replicate 5 (0, 0, 255)))
     = [(1, 0, 0), (0, 0, 1)]"
  by (simp add: colores_finales_unicos_def distance_def flotante tolerancia_valor
        eval_nat_numeral)

lemma estricto_diez:
  "kmeans_fit mundo_estricto 0 10 (Some 0) 10 (img_data imagen_demo)
     = Inl (Exception ''fewer distinct samples than clusters'')"
  by (simp add: mundo_estricto_def kmeans_estricto_def imagen_demo_def)

lemma muestreo_demo:
  "Image_open (mundo_demo \<lparr> kmeans_fit := k \<rparr>) ''dos_colores.png'' = Inr imagen_demo"
  "convert_RGB (mundo_demo \<lparr> kmeans_fit := k \<rparr>) imagen_demo = Inr imagen_demo"
  by (simp_all add: Image_open_def mundo_demo_def archivos_demo_def decode_demo_def)

lemma muestreo_entero: "muestrear w imagen_demo 1 = Inr (img_data imagen_demo)"
  by (simp add: muestrear_def)

lemmas muestreo_muestras =
  muestreo_demo [where k = kmeans_muestras, folded mundo_muestras_def] muestreo_entero

lemmas muestreo_estricto =
  muestreo_demo [where k = kmeans_estricto, folded mundo_estricto_def] muestreo_entero

lemma demo_no_existe:
  "extraer_paleta_de_imagen mundo_demo 0 ''no_existe.png''
            NUM_COLORES_PALETA REESCALAR_IMAGEN_PROCESAMIENTO TOLERANCIA_COLOR_UNICOS
     = ([msg_no_encontrada ''no_existe.png''], None)"
  by (simp add: demo_defs REESCALAR_IMAGEN_PROCESAMIENTO_def)

lemma demo_corrupto:
  "extraer_paleta_de_imagen mundo_demo 0 ''corrupto.png''
            NUM_COLORES_PALETA REESCALAR_IMAGEN_PROCESAMIENTO TOLERANCIA_COLOR_UNICOS
     = ([msg_al_procesar ''cannot identify image file''], None)"
  by (simp add: demo_defs REESCALAR_IMAGEN_PROCESAMIENTO_def)

subsection \<open>Determinism\<close>

lemma cuerpo_cong:
  assumes "kmeans_sembrado w" and "open_file w imagen_path = fs' imagen_path'"
  shows "cuerpo w rng imagen_path num_colores reescalar_factor tol
           = cuerpo (w \<lparr> open_file := fs' \<rparr>) rng' imagen_path' num_colores reescalar_factor tol"
proof -
  have k: "kmeans_fit w rng num_colores (Some 0) 10 X = kmeans_fit w rng' num_colores (Some 0) 10 X"
    for X
    using assms(1) unfolding kmeans_sembrado_def by blast
  have m: "muestrear (w \<lparr> open_file := fs' \<rparr>) img f = muestrear w img f" for img f
    by (simp add: muestrear_def)
  have i: "Image_open (w \<lparr> open_file := fs' \<rparr>) imagen_path' = Image_open w imagen_path"
    by (simp add: Image_open_def assms(2) split: sum.splits)
  show ?thesis
    by (simp add: cuerpo_def i m k split: sum.splits)
qed

lemma sembrado_demo: "kmeans_sembrado mundo_demo"
  by (simp add: kmeans_sembrado_def mundo_demo_def kmeans_demo_def)

text \<open>
  C5. The function asks for the clustering with the fixed seed \<open>random_state = 0\<close>. So, for
  a clusterer whose seeded runs do not depend on the process-wide generator, two calls on
  the same image bytes with the same configuration return the same palette, whatever the
  state of that generator and under whatever path the bytes are found.
\<close>

theorem extraction_is_deterministic:
  assumes "kmeans_sembrado w" and "open_file w imagen_path = fs' imagen_path'"
  shows "snd (extraer_paleta_de_imagen w rng imagen_path num_colores reescalar_factor tol)
         = snd (extraer_paleta_de_imagen (w \<lparr> open_file := fs' \<rparr>) rng' imagen_path'
                  num_colores reescalar_factor tol)"
proof -
  have "cuerpo w rng imagen_path num_colores reescalar_factor tol
          = cuerpo (w \<lparr> open_file := fs' \<rparr>) rng' imagen_path' num_colores reescalar_factor tol"
    using assms by (rule cuerpo_cong)
  then show ?thesis
    by (simp add: extraer_paleta_de_imagen_def split: sum.splits exn.splits)
qed

theorem extraction_is_deterministic_witness:
  "kmeans_sembrado mundo_demo
   \<and> open_file mundo_demo ''dos_colores.png'' = archivos_copia ''copia.png''
   \<and> kmeans_fit mundo_demo 0 1 None 10 [(7, 7, 7)] \<noteq> kmeans_fit mundo_demo 1 1 None 10 [(7, 7, 7)]
   \<and> snd (extraer_paleta_de_imagen mundo_demo 0 ''dos_colores.png'' 3 1 (1 / 2))
       = Some [(0, 0, 0), (1, 0, 0)]
   \<and> snd (extraer_paleta_de_imagen (mundo_demo \<lparr> open_file := archivos_copia \<rparr>) 1 ''copia.png''
            3 1 (1 / 2))
       = Some [(0, 0, 0), (1, 0, 0)]"
proof -
  have f: "open_file mundo_demo ''dos_colores.png'' = archivos_copia ''copia.png''"
    by (simp add: mundo_demo_def archivos_demo_def archivos_copia_def)
  have u: "kmeans_fit mundo_demo 0 1 None 10 [(7, 7, 7)]
             \<noteq> kmeans_fit mundo_demo 1 1 None 10 [(7, 7, 7)]"
    by (simp add: mundo_demo_def kmeans_demo_def)
  have h: "snd (extraer_paleta_de_imagen mundo_demo 0 ''dos_colores.png'' 3 1 (1 / 2))
             = Some [(0, 0, 0), (1, 0, 0)]"
    by (simp add: demo_tres)
  have "snd (extraer_paleta_de_imagen mundo_demo 0 ''dos_colores.png'' 3 1 (1 / 2))
          = snd (extraer_paleta_de_imagen (mundo_demo \<lparr> open_file := archivos_copia \<rparr>) 1
                   ''copia.png'' 3 1 (1 / 2))"
    using sembrado_demo f by (rule extraction_is_deterministic)
  with sembrado_demo f u h show ?thesis by simp
qed

subsection \<open>Downscaling\<close>

lemma py_int_nonneg: "0 \<le> x \<Longrightarrow> py_int x = \<lfloor>x\<rfloor>"
  by (simp add: py_int_def)

lemma fmul_nonneg: "0 \<le> a \<Longrightarrow> 0 \<le> b \<Longrightarrow> 0 \<le> fmul a b"
  unfolding fmul_def by (rule round64_nonneg) simp

lemma reescalar_valor:
  "REESCALAR_IMAGEN_PROCESAMIENTO = 5404319552844595 / 18014398509481984"
  by (simp add: REESCALAR_IMAGEN_PROCESAMIENTO_def round64_tres_decimos)

lemma fmul_diez_reescalar: "fmul 10 REESCALAR_IMAGEN_PROCESAMIENTO = 3"
proof -
  have "rne (27021597764222975 / 4) = 6755399441055744"
    by (simp add: rne_def Let_def)
  then show ?thesis
    using round64_eval [of "10 * (5404319552844595 / 18014398509481984)" 51]
    by (simp add: fmul_def reescalar_valor)
qed

text \<open>
  C6, as the code has it. For a factor strictly between 0 and 1 the sampler asks PIL for a
  resize to the integer part of the float64 product of each dimension and the factor, with
  the LANCZOS filter (not nearest-neighbour); it applies no minimum, so a dimension whose
  product with the factor is below 1 is requested as 0. A 100 by 100 image with factor
  0.5 is requested at 50 by 50. The product is the rounded one: a 10 by 10 image with the
  default factor is requested at 3 by 3, while the floor of the exact product of 10 and
  that factor is 2.
\<close>

theorem downscale_requests_floor_size:
  assumes "0 < reescalar_factor" and "reescalar_factor < 1"
  shows "muestrear w img reescalar_factor
           = (case resize w img (\<lfloor>fmul (real (fst (img_size img))) reescalar_factor\<rfloor>,
                                 \<lfloor>fmul (real (snd (img_size img))) reescalar_factor\<rfloor>)
                     LANCZOS of
                Inl e \<Rightarrow> Inl e
              | Inr img_redimensionada \<Rightarrow> Inr (img_data img_redimensionada))
         \<and> LANCZOS \<noteq> NEAREST
         \<and> (fmul (real (fst (img_size img))) reescalar_factor < 1
              \<longrightarrow> fst (nuevo_tamano (img_size img) reescalar_factor) = 0)
         \<and> nuevo_tamano (100, 100) (1 / 2) = (50, 50)
         \<and> nuevo_tamano (10, 10) REESCALAR_IMAGEN_PROCESAMIENTO = (3, 3)
         \<and> \<lfloor>10 * REESCALAR_IMAGEN_PROCESAMIENTO\<rfloor> = 2"
proof -
  have a: "0 \<le> fmul (real n) reescalar_factor" for n
    using assms(1) by (intro fmul_nonneg) simp_all
  have sz: "nuevo_tamano (img_size img) reescalar_factor
              = (\<lfloor>fmul (real (fst (img_size img))) reescalar_factor\<rfloor>,
                 \<lfloor>fmul (real (snd (img_size img))) reescalar_factor\<rfloor>)"
    by (cases "img_size img") (simp add: nuevo_tamano_def py_int_nonneg a)
  have z: "fst (nuevo_tamano (img_size img) reescalar_factor) = 0"
    if "fmul (real (fst (img_size img))) reescalar_factor < 1"
  proof -
    have "\<lfloor>fmul (real (fst (img_size img))) reescalar_factor\<rfloor> = 0"
      using that a [of "fst (img_size img)"] by (simp add: floor_eq_iff)
    then show ?thesis by (simp add: sz)
  qed
  have d: "nuevo_tamano (100, 100) (1 / 2) = (50, 50)"
    by (simp add: nuevo_tamano_def py_int_def fmul_def round64_50)
  have t: "nuevo_tamano (10, 10) REESCALAR_IMAGEN_PROCESAMIENTO = (3, 3)"
    by (simp add: nuevo_tamano_def py_int_def fmul_diez_reescalar)
  have x: "\<lfloor>10 * REESCALAR_IMAGEN_PROCESAMIENTO\<rfloor> = 2"
    by (simp add: reescalar_valor)
  have m: "muestrear w img reescalar_factor
             = (case resize w img (\<lfloor>fmul (real (fst (img_size img))) reescalar_factor\<rfloor>,
                                   \<lfloor>fmul (real (snd (img_size img))) reescalar_factor\<rfloor>)
                       LANCZOS of
                  Inl e \<Rightarrow> Inl e
                | Inr img_redimensionada \<Rightarrow> Inr (img_data img_redimensionada))"
    using assms by (simp add: muestrear_def sz)
  have "LANCZOS \<noteq> NEAREST" by simp
  with m z d t x show ?thesis by blast
qed

theorem downscale_requests_floor_size_witness:
  "(0 :: real) < 1 / 2 \<and> (1 / 2 :: real) < 1
   \<and> muestrear mundo_demo imagen_100 (1 / 2) = Inr (replicate (50 * 50) (7, 7, 7))"
proof -
  have p: "(0 :: real) < 1 / 2" and q: "(1 / 2 :: real) < 1" by simp_all
  from downscale_requests_floor_size [OF p q, of mundo_demo imagen_100]
  have "muestrear mundo_demo imagen_100 (1 / 2)
          = (case resize mundo_demo imagen_100
                    (\<lfloor>fmul (real (fst (img_size imagen_100))) (1 / 2)\<rfloor>,
                     \<lfloor>fmul (real (snd (img_size imagen_100))) (1 / 2)\<rfloor>) LANCZOS of
                Inl e \<Rightarrow> Inl e
              | Inr img_redimensionada \<Rightarrow> Inr (img_data img_redimensionada))"
    by (rule conjunct1)
  also have "\<dots> = Inr (replicate (50 * 50) (7, 7, 7))"
    by (simp add: mundo_demo_def imagen_100_def resize_demo_def fmul_def round64_50)
  finally show ?thesis using p q by simp
qed

text \<open>
  C6 as stated promises at least one pixel per dimension. For a single-pixel image and
  factor 0.5 the size requested is 0 by 0, which the resize of the concrete world refuses.
\<close>

theorem downscale_without_minimum_counterexample:
  "nuevo_tamano (img_size imagen_pixel) (1 / 2) = (0, 0)
   \<and> muestrear mundo_demo imagen_pixel (1 / 2)
       = Inl (Exception ''height and width must be > 0'')"
  by (simp add: nuevo_tamano_def py_int_def imagen_pixel_def muestrear_def mundo_demo_def
        resize_demo_def fmul_def round64_half)

subsection \<open>Failures\<close>

text \<open>
  C7, as the code has it. A \<open>FileNotFoundError\<close> makes the function print the line
  about the path and return \<open>None\<close>; any other exception makes it print the line
  about processing and return \<open>None\<close>. The function returns \<open>None\<close> exactly when a
  step raised, so no exception leaves it; the two kinds of failure differ in the printed
  line only.
\<close>

theorem failures_print_and_return_None:
  "(open_file w imagen_path = Inl (FileNotFoundError s)
      \<longrightarrow> extraer_paleta_de_imagen w rng imagen_path num_colores reescalar_factor tol
            = ([msg_no_encontrada imagen_path], None))
   \<and> (open_file w imagen_path = Inr b \<and> decode w b = Inl (Exception s)
      \<longrightarrow> extraer_paleta_de_imagen w rng imagen_path num_colores reescalar_factor tol
            = ([msg_al_procesar s], None))
   \<and> (cuerpo w rng imagen_path num_colores reescalar_factor tol = Inl (FileNotFoundError s)
      \<longrightarrow> extraer_paleta_de_imagen w rng imagen_path num_colores reescalar_factor tol
            = ([msg_no_encontrada imagen_path], None))
   \<and> (cuerpo w rng imagen_path num_colores reescalar_factor tol = Inl (Exception s)
      \<longrightarrow> extraer_paleta_de_imagen w rng imagen_path num_colores reescalar_factor tol
            = ([msg_al_procesar s], None))
   \<and> (snd (extraer_paleta_de_imagen w rng imagen_path num_colores reescalar_factor tol) = None
        \<longleftrightarrow> (\<exists>e. cuerpo w rng imagen_path num_colores reescalar_factor tol = Inl e))"
proof -
  have a: "cuerpo w rng imagen_path num_colores reescalar_factor tol = Inl e"
    if "open_file w imagen_path = Inl e" for e
    using that by (simp add: cuerpo_def Image_open_def)
  have b: "cuerpo w rng imagen_path num_colores reescalar_factor tol = Inl e"
    if "open_file w imagen_path = Inr b" "decode w b = Inl e" for e
    using that by (simp add: cuerpo_def Image_open_def)
  have c: "extraer_paleta_de_imagen w rng imagen_path num_colores reescalar_factor tol
             = ([msg_no_encontrada imagen_path], None)"
    if "cuerpo w rng imagen_path num_colores reescalar_factor tol = Inl (FileNotFoundError s)"
    using that by (simp add: extraer_paleta_de_imagen_def)
  have d: "extraer_paleta_de_imagen w rng imagen_path num_colores reescalar_factor tol
             = ([msg_al_procesar s], None)"
    if "cuerpo w rng imagen_path num_colores reescalar_factor tol = Inl (Exception s)"
    using that by (simp add: extraer_paleta_de_imagen_def)
  have e: "snd (extraer_paleta_de_imagen w rng imagen_path num_colores reescalar_factor tol) = None
             \<longleftrightarrow> (\<exists>e. cuerpo w rng imagen_path num_colores reescalar_factor tol = Inl e)"
    by (simp add: extraer_paleta_de_imagen_def split: sum.splits exn.splits)
  from a b c d e show ?thesis by blast
qed

theorem failures_print_and_return_None_witness:
  "open_file mundo_demo ''no_existe.png''
     = Inl (FileNotFoundError ''No such file or directory: no_existe.png'')
   \<and> extraer_paleta_de_imagen mundo_demo 0 ''no_existe.png''
             NUM_COLORES_PALETA REESCALAR_IMAGEN_PROCESAMIENTO TOLERANCIA_COLOR_UNICOS
       = ([msg_no_encontrada ''no_existe.png''], None)
   \<and> open_file mundo_demo ''corrupto.png'' = Inr []
   \<and> decode mundo_demo [] = Inl (Exception ''cannot identify image file'')
   \<and> extraer_paleta_de_imagen mundo_demo 0 ''corrupto.png''
             NUM_COLORES_PALETA REESCALAR_IMAGEN_PROCESAMIENTO TOLERANCIA_COLOR_UNICOS
       = ([msg_al_procesar ''cannot identify image file''], None)"
proof -
  have o1: "open_file mundo_demo ''no_existe.png''
              = Inl (FileNotFoundError ''No such file or directory: no_existe.png'')"
    by (simp add: mundo_demo_def archivos_demo_def)
  have o2: "open_file mundo_demo ''corrupto.png'' = Inr []"
    by (simp add: mundo_demo_def archivos_demo_def)
  have d2: "decode mundo_demo [] = Inl (Exception ''cannot identify image file'')"
    by (simp add: mundo_demo_def decode_demo_def)
  from failures_print_and_return_None
         [of mundo_demo "''no_existe.png''" "''No such file or directory: no_existe.png''"
             0 NUM_COLORES_PALETA REESCALAR_IMAGEN_PROCESAMIENTO TOLERANCIA_COLOR_UNICOS] o1
  have r1: "extraer_paleta_de_imagen mundo_demo 0 ''no_existe.png''
            NUM_COLORES_PALETA REESCALAR_IMAGEN_PROCESAMIENTO TOLERANCIA_COLOR_UNICOS
              = ([msg_no_encontrada ''no_existe.png''], None)"
    by blast
  from failures_print_and_return_None
         [of mundo_demo "''corrupto.png''" "''cannot identify image file''"
             0 NUM_COLORES_PALETA REESCALAR_IMAGEN_PROCESAMIENTO TOLERANCIA_COLOR_UNICOS "[]"] o2 d2
  have r2: "extraer_paleta_de_imagen mundo_demo 0 ''corrupto.png''
            NUM_COLORES_PALETA REESCALAR_IMAGEN_PROCESAMIENTO TOLERANCIA_COLOR_UNICOS
              = ([msg_al_procesar ''cannot identify image file''], None)"
    by blast
  from o1 r1 o2 d2 r2 show ?thesis by blast
qed

text \<open>
  C7 as stated promises two distinct typed errors. A missing file and a file that does not
  decode give the same returned value.
\<close>

theorem failures_are_not_typed_counterexample:
  "extraer_paleta_de_imagen mundo_demo 0 ''no_existe.png''
            NUM_COLORES_PALETA REESCALAR_IMAGEN_PROCESAMIENTO TOLERANCIA_COLOR_UNICOS
     = ([msg_no_encontrada ''no_existe.png''], None)
   \<and> extraer_paleta_de_imagen mundo_demo 0 ''corrupto.png''
             NUM_COLORES_PALETA REESCALAR_IMAGEN_PROCESAMIENTO TOLERANCIA_COLOR_UNICOS
       = ([msg_al_procesar ''cannot identify image file''], None)
   \<and> snd (extraer_paleta_de_imagen mundo_demo 0 ''no_existe.png''
             NUM_COLORES_PALETA REESCALAR_IMAGEN_PROCESAMIENTO TOLERANCIA_COLOR_UNICOS)
       = snd (extraer_paleta_de_imagen mundo_demo 0 ''corrupto.png''
                 NUM_COLORES_PALETA REESCALAR_IMAGEN_PROCESAMIENTO TOLERANCIA_COLOR_UNICOS)"
proof -
  have "snd (extraer_paleta_de_imagen mundo_demo 0 ''no_existe.png'' NUM_COLORES_PALETA
               REESCALAR_IMAGEN_PROCESAMIENTO TOLERANCIA_COLOR_UNICOS)
          = snd (extraer_paleta_de_imagen mundo_demo 0 ''corrupto.png'' NUM_COLORES_PALETA
                   REESCALAR_IMAGEN_PROCESAMIENTO TOLERANCIA_COLOR_UNICOS)"
    unfolding demo_no_existe demo_corrupto by simp
  with demo_no_existe demo_corrupto show ?thesis by blast
qed

text \<open>
  C8, as the code has it. The function never compares \<open>num_colores\<close> with the number of
  distinct samples. Once the image is sampled the outcome is the clusterer's: an exception
  is printed, with the line of its handler, and turned into \<open>None\<close>; a list of centres
  is normalised, deduplicated and returned.
\<close>

theorem outcome_follows_the_clusterer:
  assumes "Image_open w imagen_path = Inr img0"
    and "convert_RGB w img0 = Inr img"
    and "muestrear w img reescalar_factor = Inr pixels"
  shows "extraer_paleta_de_imagen w rng imagen_path num_colores reescalar_factor tol
           = (case kmeans_fit w rng num_colores (Some 0) 10 pixels of
                Inl (FileNotFoundError _) \<Rightarrow> ([msg_no_encontrada imagen_path], None)
              | Inl (Exception e) \<Rightarrow> ([msg_al_procesar e], None)
              | Inr cluster_centers \<Rightarrow>
                  ([], Some (colores_finales_unicos tol (map normalizar cluster_centers))))"
  using assms
  by (simp add: extraer_paleta_de_imagen_def cuerpo_def split: sum.splits exn.splits)

theorem outcome_follows_the_clusterer_witness:
  "card (set (img_data imagen_demo)) = 2
   \<and> Image_open mundo_muestras ''dos_colores.png'' = Inr imagen_demo
   \<and> convert_RGB mundo_muestras imagen_demo = Inr imagen_demo
   \<and> muestrear mundo_muestras imagen_demo 1 = Inr (img_data imagen_demo)
   \<and> extraer_paleta_de_imagen mundo_muestras 0 ''dos_colores.png'' 10 1
         TOLERANCIA_COLOR_UNICOS
       = ([], Some [(1, 0, 0), (0, 0, 1)])
   \<and> Image_open mundo_estricto ''dos_colores.png'' = Inr imagen_demo
   \<and> convert_RGB mundo_estricto imagen_demo = Inr imagen_demo
   \<and> muestrear mundo_estricto imagen_demo 1 = Inr (img_data imagen_demo)
   \<and> extraer_paleta_de_imagen mundo_estricto 0 ''dos_colores.png'' 10 1
         TOLERANCIA_COLOR_UNICOS
       = ([msg_al_procesar ''fewer distinct samples than clusters''], None)
   \<and> extraer_paleta_de_imagen
         (mundo_demo \<lparr> kmeans_fit := \<lambda>rng k rs n X. Inl (FileNotFoundError ''cache'') \<rparr>)
         0 ''dos_colores.png'' 10 1 TOLERANCIA_COLOR_UNICOS
       = ([msg_no_encontrada ''dos_colores.png''], None)"
proof -
  have n: "card (set (img_data imagen_demo)) = 2"
    by (simp add: imagen_demo_def)
  have f: "extraer_paleta_de_imagen
             (mundo_demo \<lparr> kmeans_fit := \<lambda>rng k rs n X. Inl (FileNotFoundError ''cache'') \<rparr>)
             0 ''dos_colores.png'' 10 1 TOLERANCIA_COLOR_UNICOS
           = ([msg_no_encontrada ''dos_colores.png''], None)"
    using outcome_follows_the_clusterer
            [OF muestreo_demo(1) muestreo_demo(2) muestreo_entero,
             of "\<lambda>rng k rs n X. Inl (FileNotFoundError ''cache'')" 0 10
                TOLERANCIA_COLOR_UNICOS]
    by simp
  have a: "Image_open mundo_muestras ''dos_colores.png'' = Inr imagen_demo"
    by (rule muestreo_muestras(1))
  have b: "convert_RGB mundo_muestras imagen_demo = Inr imagen_demo"
    by (rule muestreo_muestras(2))
  have c: "muestrear mundo_muestras imagen_demo 1 = Inr (img_data imagen_demo)"
    by (rule muestreo_muestras(3))
  have a': "Image_open mundo_estricto ''dos_colores.png'' = Inr imagen_demo"
    by (rule muestreo_estricto(1))
  have b': "convert_RGB mundo_estricto imagen_demo = Inr imagen_demo"
    by (rule muestreo_estricto(2))
  have c': "muestrear mundo_estricto imagen_demo 1 = Inr (img_data imagen_demo)"
    by (rule muestreo_estricto(3))
  from outcome_follows_the_clusterer [OF a b c, of 0 10 TOLERANCIA_COLOR_UNICOS]
  have r: "extraer_paleta_de_imagen mundo_muestras 0 ''dos_colores.png'' 10 1
             TOLERANCIA_COLOR_UNICOS
           = ([], Some [(1, 0, 0), (0, 0, 1)])"
    unfolding muestras_diez sum.case paleta_diez .
  from outcome_follows_the_clusterer [OF a' b' c', of 0 10 TOLERANCIA_COLOR_UNICOS]
  have r': "extraer_paleta_de_imagen mundo_estricto 0 ''dos_colores.png'' 10 1
              TOLERANCIA_COLOR_UNICOS
            = ([msg_al_procesar ''fewer distinct samples than clusters''], None)"
    unfolding estricto_diez sum.case exn.case .
  from n a b c r a' b' c' r' f show ?thesis by blast
qed

text \<open>
  C8 as stated promises the typed error InsufficientSamples for 10 clusters on an image of
  2 distinct colours. With a clusterer that returns 10 of the samples as centres the call
  succeeds with the palette of the 2 colours of the image; with one that refuses, the call
  returns \<open>None\<close>, as it does for a missing file.
\<close>

theorem insufficient_samples_counterexample:
  "card (set (img_data imagen_demo)) = 2
   \<and> extraer_paleta_de_imagen mundo_muestras 0 ''dos_colores.png'' 10 1
         TOLERANCIA_COLOR_UNICOS
       = ([], Some [(1, 0, 0), (0, 0, 1)])
   \<and> extraer_paleta_de_imagen mundo_estricto 0 ''dos_colores.png'' 10 1
         TOLERANCIA_COLOR_UNICOS
       = ([msg_al_procesar ''fewer distinct samples than clusters''], None)
   \<and> snd (extraer_paleta_de_imagen mundo_estricto 0 ''no_existe.png'' 10 1
            TOLERANCIA_COLOR_UNICOS) = None"
proof -
  have n: "card (set (img_data imagen_demo)) = 2"
    by (simp add: imagen_demo_def)
  have "cuerpo mundo_muestras 0 ''dos_colores.png'' 10 1 TOLERANCIA_COLOR_UNICOS
          = Inr [(1, 0, 0), (0, 0, 1)]"
    by (simp only: cuerpo_def muestreo_muestras sum.case muestras_diez paleta_diez)
  then have r: "extraer_paleta_de_imagen mundo_muestras 0 ''dos_colores.png'' 10 1
                  TOLERANCIA_COLOR_UNICOS = ([], Some [(1, 0, 0), (0, 0, 1)])"
    by (simp add: extraer_paleta_de_imagen_def)
  have "cuerpo mundo_estricto 0 ''dos_colores.png'' 10 1 TOLERANCIA_COLOR_UNICOS
          = Inl (Exception ''fewer distinct samples than clusters'')"
    by (simp only: cuerpo_def muestreo_estricto sum.case estricto_diez)
  then have r': "extraer_paleta_de_imagen mundo_estricto 0 ''dos_colores.png'' 10 1
                   TOLERANCIA_COLOR_UNICOS
                 = ([msg_al_procesar ''fewer distinct samples than clusters''], None)"
    by (simp add: extraer_paleta_de_imagen_def)
  have "cuerpo mundo_estricto 0 ''no_existe.png'' 10 1 TOLERANCIA_COLOR_UNICOS
          = Inl (FileNotFoundError ''No such file or directory: no_existe.png'')"
    by (simp add: cuerpo_def Image_open_def mundo_estricto_def mundo_demo_def archivos_demo_def)
  then have m: "snd (extraer_paleta_de_imagen mundo_estricto 0 ''no_existe.png'' 10 1
                       TOLERANCIA_COLOR_UNICOS) = None"
    by (simp add: extraer_paleta_de_imagen_def)
  from n r r' m show ?thesis by blast
qed

subsection \<open>The cleanup\<close>

lemma fold_remove1_filter:
  assumes "\<forall>y \<in> set pre. \<not> (P y \<and> Q y)"
  shows "fold (\<lambda>x ys. if Q x then remove1 x ys else ys) (filter P xs) (pre @ xs)
           = pre @ filter (\<lambda>x. \<not> (P x \<and> Q x)) xs"
  using assms
proof (induction xs arbitrary: pre)
  case Nil
  then show ?case by simp
next
  case (Cons x xs)
  show ?case
  proof (cases "P x \<and> Q x")
    case True
    with Cons.prems have "x \<notin> set pre" by blast
    then have "remove1 x (pre @ x # xs) = pre @ xs"
      by (simp add: remove1_append)
    with True Cons.IH [OF Cons.prems] show ?thesis by simp
  next
    case False
    with Cons.prems have "\<forall>y \<in> set (pre @ [x]). \<not> (P y \<and> Q y)" by auto
    from Cons.IH [OF this] False show ?thesis by auto
  qed
qed

lemma escena_eval:
  "limpiar_materiales_paleta ''Paleta_'' escena_demo
     = \<lparr> materials = [\<lparr> mat_name = ''Paleta_00'', mat_users = 1 \<rparr>,
                      \<lparr> mat_name = ''Madera'', mat_users = 0 \<rparr>],
         objects = [''Cube''] \<rparr>"
  by (simp add: limpiar_materiales_paleta_def escena_demo_def material_matches_def
        object_matches_def startswith_def PREFIJO_NOMBRE_DEFAULT_def Let_def sublist_code)

text \<open>
  C9, as the code has it. The cleanup removes every object whose name starts with the
  default or the current prefix or contains \<open>Color_Referencia_\<close>, and every material
  with such a prefix that has no user when the cleanup looks at it; a material with users
  stays, and so does everything that does not match.
\<close>

theorem cleanup_removes_objects_and_unused_materials:
  "materials (limpiar_materiales_paleta current_prefix d)
     = filter (\<lambda>mat. \<not> (material_matches current_prefix mat \<and> mat_users mat = 0)) (materials d)
   \<and> objects (limpiar_materiales_paleta current_prefix d)
       = filter (\<lambda>name. \<not> object_matches current_prefix name) (objects d)"
proof -
  have "materials (limpiar_materiales_paleta current_prefix d)
          = filter (\<lambda>mat. \<not> (material_matches current_prefix mat \<and> mat_users mat = 0))
              (materials d)"
    using fold_remove1_filter
            [of "[]" "material_matches current_prefix" "\<lambda>m. mat_users m = 0" "materials d"]
    by (simp add: limpiar_materiales_paleta_def Let_def)
  moreover have "objects (limpiar_materiales_paleta current_prefix d)
          = filter (\<lambda>name. \<not> object_matches current_prefix name) (objects d)"
    using fold_remove1_filter [of "[]" "object_matches current_prefix" "\<lambda>_. True" "objects d"]
    by (simp add: limpiar_materiales_paleta_def Let_def)
  ultimately show ?thesis by blast
qed

theorem cleanup_removes_objects_and_unused_materials_witness:
  "materials (limpiar_materiales_paleta ''Paleta_'' escena_demo)
     = [\<lparr> mat_name = ''Paleta_00'', mat_users = 1 \<rparr>, \<lparr> mat_name = ''Madera'', mat_users = 0 \<rparr>]
   \<and> objects (limpiar_materiales_paleta ''Paleta_'' escena_demo) = [''Cube'']"
proof -
  have m: "filter (\<lambda>mat. \<not> (material_matches ''Paleta_'' mat \<and> mat_users mat = 0))
             (materials escena_demo)
           = [\<lparr> mat_name = ''Paleta_00'', mat_users = 1 \<rparr>,
              \<lparr> mat_name = ''Madera'', mat_users = 0 \<rparr>]"
    by (simp add: escena_demo_def material_matches_def startswith_def
          PREFIJO_NOMBRE_DEFAULT_def)
  have ob: "filter (\<lambda>name. \<not> object_matches ''Paleta_'' name) (objects escena_demo) = [''Cube'']"
    by (simp add: escena_demo_def object_matches_def startswith_def
          PREFIJO_NOMBRE_DEFAULT_def sublist_code)
  from cleanup_removes_objects_and_unused_materials [of "''Paleta_''" escena_demo]
  show ?thesis unfolding m ob .
qed

text \<open>
  C9 as stated promises that every material with the prefix is removed before new ones
  are created. A palette material that a sphere still uses when the cleanup looks at it
  survives the cleanup.
\<close>

theorem cleanup_keeps_used_material_counterexample:
  "\<lparr> mat_name = ''Paleta_00'', mat_users = 1 \<rparr> \<in> set (materials escena_demo)
   \<and> startswith ''Paleta_00'' ''Paleta_''
   \<and> \<lparr> mat_name = ''Paleta_00'', mat_users = 1 \<rparr>
       \<in> set (materials (limpiar_materiales_paleta ''Paleta_'' escena_demo))"
  by (simp add: escena_eval) (simp add: escena_demo_def startswith_def)


end
